theory Spec2Isabelle
  imports Main "HOL-Library.Sublist"
begin

section \<open>Python values\<close>

text \<open>
  The commands of the assistant are Python dictionaries decoded from JSON. A value that
  \<^verbatim>\<open>json.loads\<close> can return is a \<open>json\<close>: \<^verbatim>\<open>None\<close>, a bool, an int, a float, a
  str, a list or a dict. A dict is an association list with distinct keys, in insertion
  order. A float is the decimal numeral \<open>m * 10 ^ e\<close> that Python rounds to a double, or
  one of the three special values the decoder accepts. Strings are sequences of code
  points below 256.
\<close>

datatype pyfloat = Finite int int | NaN | Infinity | NegInfinity

datatype json =
    JNull
  | JBool bool
  | JInt int
  | JFloat pyfloat
  | JStr string
  | JList "json list"
  | JDict "(string \<times> json) list"

text \<open>The exceptions that the modelled functions let escape, or catch by class.\<close>

datatype exn = TypeError | AttributeError | UnboundLocalError | IndexError | EOFError
  | JSONDecodeError | ValueError | RecursionError | ConnectionError | SpotifyOauthError
  | OutsideModel

text \<open>\<^verbatim>\<open>d.get(k, default)\<close> and \<^verbatim>\<open>d.get(k)\<close>, whose default is \<^verbatim>\<open>None\<close>.\<close>

definition dict_get :: "(string \<times> json) list \<Rightarrow> string \<Rightarrow> json \<Rightarrow> json" where
  "dict_get kvs k d = (case map_of kvs k of None \<Rightarrow> d | Some v \<Rightarrow> v)"

text \<open>\<^verbatim>\<open>d[k] = v\<close>: a present key keeps its place and takes the new value.\<close>

fun dict_set :: "string \<Rightarrow> json \<Rightarrow> (string \<times> json) list \<Rightarrow> (string \<times> json) list" where
  "dict_set k v [] = [(k, v)]"
| "dict_set k v ((k', v') # kvs) =
     (if k = k' then (k, v) # kvs else (k', v') # dict_set k v kvs)"

text \<open>
  \<^verbatim>\<open>k in x\<close> for a string \<open>k\<close>: key membership in a dict, element membership in a list,
  substring test in a str, and TypeError for the values that are not iterable.
\<close>

fun py_in :: "string \<Rightarrow> json \<Rightarrow> exn + bool" where
  "py_in k (JDict kvs) = Inr (k \<in> set (map fst kvs))"
| "py_in k (JList xs) = Inr (JStr k \<in> set xs)"
| "py_in k (JStr s) = Inr (sublist k s)"
| "py_in k JNull = Inl TypeError"
| "py_in k (JBool b) = Inl TypeError"
| "py_in k (JInt n) = Inl TypeError"
| "py_in k (JFloat x) = Inl TypeError"

text \<open>
  The numeral \<open>m * 10 ^ e\<close> rounds to the double 0.0: it is zero, or at most half of the
  least positive double, \<open>2 ^ -1074\<close>.
\<close>

definition rounds_to_zero :: "int \<Rightarrow> int \<Rightarrow> bool" where
  "rounds_to_zero m e = (m = 0 \<or> (e < 0 \<and> \<bar>m\<bar> * 2 ^ 1075 \<le> 10 ^ nat (- e)))"

text \<open>The truth value of a Python object, as \<^verbatim>\<open>if not x\<close> tests it.\<close>

fun truthy :: "json \<Rightarrow> bool" where
  "truthy JNull = False"
| "truthy (JBool b) = b"
| "truthy (JInt n) = (n \<noteq> 0)"
| "truthy (JFloat x) = (case x of Finite m e \<Rightarrow> \<not> rounds_to_zero m e | _ \<Rightarrow> True)"
| "truthy (JStr s) = (s \<noteq> [])"
| "truthy (JList xs) = (xs \<noteq> [])"
| "truthy (JDict kvs) = (kvs \<noteq> [])"

text \<open>\<^verbatim>\<open>str.strip()\<close>: the whitespace code points below 256.\<close>

definition py_isspace :: "char \<Rightarrow> bool" where
  "py_isspace c = ((of_char c :: nat) \<in> {9, 10, 11, 12, 13, 28, 29, 30, 31, 32, 133, 160})"

definition strip :: "string \<Rightarrow> string" where
  "strip s = rev (dropWhile py_isspace (rev (dropWhile py_isspace s)))"

definition startswith :: "string \<Rightarrow> string \<Rightarrow> bool" where
  "startswith s p = prefix p s"


section \<open>The JSON decoder of the standard library\<close>

text \<open>
  \<^verbatim>\<open>json.loads\<close>, as the C scanner of CPython decodes a text: whitespace, \<^verbatim>\<open>null\<close>,
  \<^verbatim>\<open>true\<close>, \<^verbatim>\<open>false\<close>, \<^verbatim>\<open>NaN\<close>, \<^verbatim>\<open>Infinity\<close>, \<^verbatim>\<open>-Infinity\<close>, numbers, strings,
  arrays and objects (a repeated key keeps its first place and its last value). Its
  outcomes are a value (\<open>Inr\<close>) or an exception (\<open>Inl\<close>):
  \<^item> \<open>JSONDecodeError\<close> for a text that is not JSON;
  \<^item> \<open>ValueError\<close> for an integer of more than 4300 digits (the default limit of
    the conversion from a string to an int);
  \<^item> \<open>RecursionError\<close> for arrays and objects nested deeper than the room on the
    stack, the first argument of \<open>json_decode\<close>;
  \<^item> \<open>OutsideModel\<close>, which is not an outcome of the program, for a \<^verbatim>\<open>\u\<close> escape of a
    code point above 255: the decoded string has a character that the strings of this
    model do not have.
  The theorems on \<open>parse_command\<close> that hold for every completion are stated for any
  decoder; this one runs the parser on concrete completions.
\<close>

definition json_ws :: "char \<Rightarrow> bool" where
  "json_ws c = (c = CHR '' '' \<or> c = CHR 0x09 \<or> c = CHR 0x0A \<or> c = CHR 0x0D)"

definition skip_ws :: "string \<Rightarrow> string" where
  "skip_ws s = dropWhile json_ws s"

definition is_digit :: "char \<Rightarrow> bool" where
  "is_digit c = (48 \<le> (of_char c :: nat) \<and> (of_char c :: nat) \<le> 57)"

definition digits_value :: "string \<Rightarrow> int" where
  "digits_value ds = foldl (\<lambda>a c. 10 * a + int (of_char c - 48)) 0 ds"

definition unescape :: "char \<Rightarrow> char option" where
  "unescape e =
     (if e = CHR 0x22 then Some (CHR 0x22)
      else if e = CHR 0x5C then Some (CHR 0x5C)
      else if e = CHR ''/'' then Some (CHR ''/'')
      else if e = CHR ''b'' then Some (CHR 0x08)
      else if e = CHR ''f'' then Some (CHR 0x0C)
      else if e = CHR ''n'' then Some (CHR 0x0A)
      else if e = CHR ''r'' then Some (CHR 0x0D)
      else if e = CHR ''t'' then Some (CHR 0x09)
      else None)"

text \<open>The four hexadecimal digits of a \<^verbatim>\<open>\u\<close> escape.\<close>

definition hex_value :: "char \<Rightarrow> nat option" where
  "hex_value c =
     (let n = (of_char c :: nat) in
      if 48 \<le> n \<and> n \<le> 57 then Some (n - 48)
      else if 65 \<le> n \<and> n \<le> 70 then Some (n - 55)
      else if 97 \<le> n \<and> n \<le> 102 then Some (n - 87)
      else None)"

definition hex4 :: "string \<Rightarrow> nat option" where
  "hex4 s =
     (case map hex_value (take 4 s) of
        [Some a, Some b, Some c, Some d] \<Rightarrow> Some (((a * 16 + b) * 16 + c) * 16 + d)
      | _ \<Rightarrow> None)"

definition cons_char :: "char \<Rightarrow> exn + string \<times> string \<Rightarrow> exn + string \<times> string" where
  "cons_char c r = (case r of Inl e \<Rightarrow> Inl e | Inr (s, rest) \<Rightarrow> Inr (c # s, rest))"

text \<open>
  The body of a string, after its opening quote, up to the closing one. A control
  character is refused, as the strict decoder does.
\<close>

fun scan_string :: "string \<Rightarrow> exn + string \<times> string" where
  "scan_string [] = Inl JSONDecodeError"
| "scan_string [c] = (if c = CHR 0x22 then Inr ([], []) else Inl JSONDecodeError)"
| "scan_string (c # e # cs) =
     (if c = CHR 0x22 then Inr ([], e # cs)
      else if c = CHR 0x5C then
        (if e = CHR ''u'' then
           (case hex4 cs of
              None \<Rightarrow> Inl JSONDecodeError
            | Some n \<Rightarrow>
                if n < 256 then cons_char (char_of n) (scan_string (drop 4 cs))
                else Inl OutsideModel)
         else
           (case unescape e of
              None \<Rightarrow> Inl JSONDecodeError
            | Some ch \<Rightarrow> cons_char ch (scan_string cs)))
      else if (of_char c :: nat) < 32 then Inl JSONDecodeError
      else cons_char c (scan_string (e # cs)))"

text \<open>
  A number, by the pattern \<^verbatim>\<open>(-?(?:0|[1-9]\d*))(\.\d+)?([eE][-+]?\d+)?\<close>: the longest
  match is taken and the rest of the text is left to the caller. Without fraction and
  exponent it is an int, otherwise the float of the decimal numeral. \<open>None\<close> when the
  text does not start with a number.
\<close>

definition MAX_STR_DIGITS :: nat where "MAX_STR_DIGITS = 4300"

definition scan_number :: "string \<Rightarrow> (exn + json \<times> string) option" where
  "scan_number s =
     (let neg = (s \<noteq> [] \<and> hd s = CHR ''-'');
          body = (if neg then tl s else s);
          ds = (if body \<noteq> [] \<and> hd body = CHR ''0'' then ''0'' else takeWhile is_digit body);
          r = drop (length ds) body;
          frac = (if r \<noteq> [] \<and> hd r = CHR ''.'' then takeWhile is_digit (tl r) else []);
          r1 = (if frac = [] then r else drop (Suc (length frac)) r);
          has_e = (r1 \<noteq> [] \<and> (hd r1 = CHR ''e'' \<or> hd r1 = CHR ''E''));
          esigned = (has_e \<and> tl r1 \<noteq> [] \<and> (hd (tl r1) = CHR ''-'' \<or> hd (tl r1) = CHR ''+''));
          ebody = (if esigned then tl (tl r1) else if has_e then tl r1 else []);
          eds = takeWhile is_digit ebody;
          r2 = (if eds = [] then r1 else drop (length eds) ebody);
          ex = (if esigned \<and> hd (tl r1) = CHR ''-'' then - digits_value eds else digits_value eds);
          sign = (if neg then - 1 else 1)
      in if ds = [] then None
         else if frac = [] \<and> eds = [] then
           Some (if length ds > MAX_STR_DIGITS then Inl ValueError
                 else Inr (JInt (sign * digits_value ds), r))
         else
           Some (Inr (JFloat (Finite (sign * digits_value (ds @ frac)) (ex - int (length frac))), r2)))"

definition expect :: "char \<Rightarrow> string \<Rightarrow> string option" where
  "expect c s = (case s of [] \<Rightarrow> None | x # r \<Rightarrow> if x = c then Some r else None)"

text \<open>\<^verbatim>\<open>dict(pairs)\<close>: the pairs of an object become a dict with distinct keys.\<close>

definition make_dict :: "(string \<times> json) list \<Rightarrow> (string \<times> json) list" where
  "make_dict pairs = foldl (\<lambda>d (k, v). dict_set k v d) [] pairs"

text \<open>
  The recursive descent of the scanner. The first argument is the room left for nested
  arrays and objects: entering one without room raises RecursionError. The second
  argument bounds the number of calls, for the termination of the definition;
  \<open>json_decode\<close> starts it above twice the length of the text.
\<close>

fun scan_once :: "nat \<Rightarrow> nat \<Rightarrow> string \<Rightarrow> exn + json \<times> string"
  and scan_array :: "nat \<Rightarrow> nat \<Rightarrow> string \<Rightarrow> exn + json list \<times> string"
  and scan_object :: "nat \<Rightarrow> nat \<Rightarrow> string \<Rightarrow> exn + (string \<times> json) list \<times> string"
where
  "scan_once room 0 s = Inl RecursionError"
| "scan_once room (Suc n) [] = Inl JSONDecodeError"
| "scan_once room (Suc n) (c # cs) =
     (if c = CHR 0x22 then
        (case scan_string cs of Inl e \<Rightarrow> Inl e | Inr (t, r) \<Rightarrow> Inr (JStr t, r))
      else if c = CHR ''{'' then
        (if room = 0 then Inl RecursionError
         else case expect (CHR ''}'') (skip_ws cs) of
                Some r \<Rightarrow> Inr (JDict [], r)
              | None \<Rightarrow>
                  (case scan_object (room - 1) n (skip_ws cs) of
                     Inl e \<Rightarrow> Inl e
                   | Inr (kvs, r) \<Rightarrow> Inr (JDict (make_dict kvs), r)))
      else if c = CHR ''['' then
        (if room = 0 then Inl RecursionError
         else case expect (CHR '']'') (skip_ws cs) of
                Some r \<Rightarrow> Inr (JList [], r)
              | None \<Rightarrow>
                  (case scan_array (room - 1) n (skip_ws cs) of
                     Inl e \<Rightarrow> Inl e
                   | Inr (xs, r) \<Rightarrow> Inr (JList xs, r)))
      else if prefix ''null'' (c # cs) then Inr (JNull, drop 4 (c # cs))
      else if prefix ''true'' (c # cs) then Inr (JBool True, drop 4 (c # cs))
      else if prefix ''false'' (c # cs) then Inr (JBool False, drop 5 (c # cs))
      else if prefix ''NaN'' (c # cs) then Inr (JFloat NaN, drop 3 (c # cs))
      else if prefix ''Infinity'' (c # cs) then Inr (JFloat Infinity, drop 8 (c # cs))
      else if prefix ''-Infinity'' (c # cs) then Inr (JFloat NegInfinity, drop 9 (c # cs))
      else (case scan_number (c # cs) of None \<Rightarrow> Inl JSONDecodeError | Some r \<Rightarrow> r))"
| "scan_array room 0 s = Inl RecursionError"
| "scan_array room (Suc n) s =
     (case scan_once room n s of
        Inl e \<Rightarrow> Inl e
      | Inr (v, r) \<Rightarrow>
          (case expect (CHR '']'') (skip_ws r) of
             Some r' \<Rightarrow> Inr ([v], r')
           | None \<Rightarrow>
               (case expect (CHR '','') (skip_ws r) of
                  None \<Rightarrow> Inl JSONDecodeError
                | Some r' \<Rightarrow>
                    (case scan_array room n (skip_ws r') of
                       Inl e \<Rightarrow> Inl e
                     | Inr (vs, r'') \<Rightarrow> Inr (v # vs, r'')))))"
| "scan_object room 0 s = Inl RecursionError"
| "scan_object room (Suc n) s =
     (case expect (CHR 0x22) s of
        None \<Rightarrow> Inl JSONDecodeError
      | Some r0 \<Rightarrow>
          (case scan_string r0 of
             Inl e \<Rightarrow> Inl e
           | Inr (k, r1) \<Rightarrow>
               (case expect (CHR '':'') (skip_ws r1) of
                  None \<Rightarrow> Inl JSONDecodeError
                | Some r2 \<Rightarrow>
                    (case scan_once room n (skip_ws r2) of
                       Inl e \<Rightarrow> Inl e
                     | Inr (v, r3) \<Rightarrow>
                         (case expect (CHR ''}'') (skip_ws r3) of
                            Some r4 \<Rightarrow> Inr ([(k, v)], r4)
                          | None \<Rightarrow>
                              (case expect (CHR '','') (skip_ws r3) of
                                 None \<Rightarrow> Inl JSONDecodeError
                               | Some r4 \<Rightarrow>
                                   (case scan_object room n (skip_ws r4) of
                                      Inl e \<Rightarrow> Inl e
                                    | Inr (kvs, r5) \<Rightarrow> Inr ((k, v) # kvs, r5))))))))"

text \<open>
  \<^verbatim>\<open>json.loads(s)\<close> with room for \<open>room\<close> nested containers: leading whitespace, one
  value, trailing whitespace, and nothing else (\<^verbatim>\<open>Extra data\<close> otherwise).
\<close>

definition json_decode :: "nat \<Rightarrow> string \<Rightarrow> exn + json" where
  "json_decode room s =
     (case scan_once room (2 * length s + 2) (skip_ws s) of
        Inl e \<Rightarrow> Inl e
      | Inr (v, r) \<Rightarrow> if skip_ws r = [] then Inr v else Inl JSONDecodeError)"

text \<open>
  The decoder at the default recursion limit of the interpreter, 1000, the frames in use
  at the call left aside.
\<close>

definition json_loads :: "string \<Rightarrow> exn + json" where
  "json_loads = json_decode 1000"


section \<open>Configuration (config.py)\<close>

definition CMD_SPOTIFY :: string where "CMD_SPOTIFY = ''spotify''"
definition CMD_NETFLIX :: string where "CMD_NETFLIX = ''netflix''"
definition CMD_WEBSITE :: string where "CMD_WEBSITE = ''website''"
definition CMD_UNKNOWN :: string where "CMD_UNKNOWN = ''unknown''"

definition SUPPORTED_INTENTS :: "string list" where
  "SUPPORTED_INTENTS = [CMD_SPOTIFY, CMD_NETFLIX, CMD_WEBSITE]"

text \<open>The enum of the command schema (\<^verbatim>\<open>SUPPORTED_INTENTS + [CMD_UNKNOWN]\<close> in llm.py).\<close>

definition intent_enum :: "string list" where
  "intent_enum = SUPPORTED_INTENTS @ [CMD_UNKNOWN]"


section \<open>The command parser (llm.py)\<close>

text \<open>
  What the single HTTP exchange with the generation service comes to:
  \<^item> \<open>RequestFailed\<close>: \<^verbatim>\<open>requests.post\<close> or \<^verbatim>\<open>raise_for_status\<close> raised a
    \<^verbatim>\<open>requests.RequestException\<close> (connection refused, timeout, non-success status);
  \<^item> \<open>InvalidBody\<close>: the status is a success and the body is not JSON, so
    \<^verbatim>\<open>response.json()\<close> raises \<^verbatim>\<open>requests.exceptions.JSONDecodeError\<close>. That class
    derives from \<^verbatim>\<open>RequestException\<close> and from the decode error of the JSON library that
    requests was loaded with: \<^verbatim>\<open>json.JSONDecodeError\<close> (\<open>StdJson\<close>), or the one of
    simplejson where that package is installed (\<open>SimpleJson\<close>);
  \<^item> \<open>Body v\<close>: the body decoded to \<open>v\<close>.
\<close>

datatype json_backend = StdJson | SimpleJson

datatype http_result = RequestFailed | InvalidBody json_backend | Body json

definition unknown_command :: "string \<Rightarrow> json" where
  "unknown_command q = JDict [(''intent'', JStr CMD_UNKNOWN), (''query'', JStr q)]"

text \<open>
  \<open>parse_command loads reply user_input\<close>, where \<open>loads\<close> is \<^verbatim>\<open>json.loads\<close> and \<open>reply\<close>
  the outcome of the request. \<open>Inr\<close> is the returned value and \<open>Inl\<close> an exception that
  leaves the function. The two handlers are tried in the order of the source: an
  undecodable body under \<open>StdJson\<close> reaches the first one, whose log line reads
  \<^verbatim>\<open>llm_text_output\<close> before any assignment to it. Of the exceptions of \<^verbatim>\<open>json.loads\<close>
  only \<^verbatim>\<open>json.JSONDecodeError\<close> is caught.
\<close>

definition parse_command :: "(string \<Rightarrow> exn + json) \<Rightarrow> http_result \<Rightarrow> string \<Rightarrow> exn + json" where
  "parse_command loads reply user_input =
     (case reply of
        RequestFailed \<Rightarrow> Inr (unknown_command ''Connection Error'')
      | InvalidBody StdJson \<Rightarrow> Inl UnboundLocalError
      | InvalidBody SimpleJson \<Rightarrow> Inr (unknown_command ''Connection Error'')
      | Body api_response \<Rightarrow>
          (case api_response of
             JDict kvs \<Rightarrow>
               (case dict_get kvs ''response'' (JStr []) of
                  JStr text \<Rightarrow>
                    (let llm_text_output = strip text in
                     case loads llm_text_output of
                       Inl e \<Rightarrow>
                         if e = JSONDecodeError then Inr (unknown_command user_input) else Inl e
                     | Inr parsed_json \<Rightarrow>
                         (case py_in ''intent'' parsed_json of
                            Inl e \<Rightarrow> Inl e
                          | Inr False \<Rightarrow> Inr (unknown_command user_input)
                          | Inr True \<Rightarrow> Inr parsed_json))
                | _ \<Rightarrow> Inl AttributeError)
           | _ \<Rightarrow> Inl AttributeError))"

text \<open>A reply of the service whose completion text is \<open>text\<close>.\<close>

definition completion :: "string \<Rightarrow> http_result" where
  "completion text = Body (JDict [(''response'', JStr text)])"


section \<open>Effects and the outside world\<close>

text \<open>
  The calls on the Spotify client that the handlers make, with their arguments:
  \<open>TransferPlayback device_id force_play\<close>, \<open>Search q\<close> (always with
  \<^verbatim>\<open>type='track', limit=1\<close>), \<open>AddToQueue uri device_id\<close> and
  \<open>StartPlayback device_id uris\<close>, where \<open>uris\<close> is \<open>None\<close> for the call without that
  argument.
\<close>

datatype api_call =
    Devices
  | TransferPlayback string bool
  | Search json
  | AddToQueue string string
  | StartPlayback string "string list option"
  | CurrentPlayback
  | NextTrack string
  | PreviousTrack string
  | PausePlayback string

text \<open>
  An exception of the handlers' world is a \<^verbatim>\<open>spotipy.exceptions.SpotifyException\<close>, known
  by its text \<^verbatim>\<open>str(e)\<close>, or any other \<^verbatim>\<open>Exception\<close>.
\<close>

datatype error = SpotifyException string | Other exn

datatype 'a result = Ok 'a | Raise error

text \<open>
  What the client library answers to a call: it returns a value, it raises a
  SpotifyException with the given text, or it raises another of its exceptions (a
  connection error or a timeout of \<^verbatim>\<open>requests\<close>), which is never a ValueError.
\<close>

datatype 'a answer = Returns 'a | Fails string | Breaks

text \<open>
  What an invocation does, in order: the lines it prints (without their colour codes,
  leading line breaks and pictographs), the prompts of \<^verbatim>\<open>input\<close>, the URLs it opens in the
  browser, the files it removes, the service calls it makes and the exceptions these
  calls raise.
\<close>

datatype event =
    Print string
  | Prompt string
  | BrowserOpen string
  | RemoveFile string
  | Call api_call
  | Raises error

record device =
  dev_id :: string
  dev_name :: string
  dev_type :: string
  is_active :: bool

record track =
  uri :: string
  name :: string
  artists :: "string list"

text \<open>
  \<^verbatim>\<open>settings.json\<close>: absent, present with a text that \<^verbatim>\<open>json.load\<close> raises on, or present
  with a decoded content. The dashboard writes a dict with the key
  \<^verbatim>\<open>default_play_behavior\<close>.
\<close>

datatype settings_file = NoFile | Unreadable | Content json

text \<open>
  The state that outlives an invocation: the globals \<^verbatim>\<open>sp\<close> (a client, known by its
  access token) and \<^verbatim>\<open>spotify_oauth\<close>, the token cache file \<^verbatim>\<open>.spotify_cache\<close> (\<open>None\<close>
  when the file does not exist), the settings file, the lines still to come on the
  standard input, and the events so far.
\<close>

record world =
  sp :: "string option"
  spotify_oauth :: bool
  cache_file :: "string option"
  settings :: settings_file
  stdin :: "string list"
  trace :: "event list"

text \<open>
  What the outside answers during one invocation. Each service call is made at most once
  in an invocation, so one answer per call is enough. \<open>str_of\<close> is Python's \<^verbatim>\<open>str()\<close> on
  the values that are not strings; \<open>validate_token\<close> is what \<^verbatim>\<open>get_cached_token\<close> makes
  of the token of the cache file (the token, a refreshed one, or \<^verbatim>\<open>None\<close> for a token of
  another scope); \<open>get_access_token\<close> is \<^verbatim>\<open>parse_response_code\<close> followed by
  \<^verbatim>\<open>get_access_token\<close> on the pasted URL; \<open>search\<close> is \<open>None\<close> for an empty answer and the
  list \<^verbatim>\<open>results['tracks']['items']\<close> otherwise; \<open>current_playback\<close> is \<open>None\<close> for an
  empty answer and the truth value of \<^verbatim>\<open>is_playing\<close> otherwise.
\<close>

record env =
  str_of :: "json \<Rightarrow> string"
  authorize_url :: string
  validate_token :: "string \<Rightarrow> string option answer"
  get_access_token :: "string \<Rightarrow> string option answer"
  devices :: "device list answer"
  transfer_playback :: "unit answer"
  search :: "track list option answer"
  add_to_queue :: "unit answer"
  start_playback :: "unit answer"
  current_playback :: "bool option answer"
  next_track :: "unit answer"
  previous_track :: "unit answer"
  pause_playback :: "unit answer"

definition emit :: "event \<Rightarrow> world \<Rightarrow> world" where
  "emit e w = w\<lparr>trace := trace w @ [e]\<rparr>"

definition print :: "string \<Rightarrow> world \<Rightarrow> world" where
  "print s w = emit (Print s) w"

text \<open>A service call: it is recorded, and so is the exception when it raises one.\<close>

definition raised :: "error \<Rightarrow> api_call \<Rightarrow> world \<Rightarrow> 'a result \<times> world" where
  "raised e c w = (Raise e, emit (Raises e) (emit (Call c) w))"

definition call :: "api_call \<Rightarrow> 'a answer \<Rightarrow> world \<Rightarrow> 'a result \<times> world" where
  "call c r w =
     (case r of
        Returns x \<Rightarrow> (Ok x, emit (Call c) w)
      | Fails msg \<Rightarrow> raised (SpotifyException msg) c w
      | Breaks \<Rightarrow> raised (Other ConnectionError) c w)"

text \<open>\<^verbatim>\<open>input(prompt)\<close>: the next line of the standard input, EOFError at its end.\<close>

definition input :: "string \<Rightarrow> world \<Rightarrow> string result \<times> world" where
  "input prompt w =
     (case stdin w of
        [] \<Rightarrow> (Raise (Other EOFError), emit (Prompt prompt) w)
      | l # ls \<Rightarrow> (Ok l, (emit (Prompt prompt) w)\<lparr>stdin := ls\<rparr>))"

text \<open>Sequencing: an exception ends the computation.\<close>

definition bind ::
  "(world \<Rightarrow> 'a result \<times> world) \<Rightarrow> ('a \<Rightarrow> world \<Rightarrow> 'b result \<times> world) \<Rightarrow> world \<Rightarrow> 'b result \<times> world"
where
  "bind m f w = (case m w of (Ok x, w') \<Rightarrow> f x w' | (Raise e, w') \<Rightarrow> (Raise e, w'))"

text \<open>A value in an f-string: a str as it is, anything else through \<^verbatim>\<open>str()\<close>.\<close>

definition format_value :: "env \<Rightarrow> json \<Rightarrow> string" where
  "format_value env v = (case v of JStr s \<Rightarrow> s | _ \<Rightarrow> str_of env v)"

definition quoted :: "string \<Rightarrow> string" where
  "quoted s = [CHR 0x27] @ s @ [CHR 0x27]"


section \<open>The handlers of main.py\<close>

definition handle_netflix :: "env \<Rightarrow> json \<Rightarrow> world \<Rightarrow> unit result \<times> world" where
  "handle_netflix env command_data w =
     (case command_data of
        JDict kvs \<Rightarrow>
          (let query = format_value env (dict_get kvs ''query'' (JStr ''Netflix search''));
               w1 = print ''>> [NETFLIX]'' w;
               w2 = print ''   Action: Searching Netflix'' w1;
               w3 = print (''   Target: '' @ quoted query) w2
           in (Ok (), emit (BrowserOpen (''https://www.netflix.com/search?q='' @ query)) w3))
      | _ \<Rightarrow> (Raise (Other AttributeError), w))"

definition handle_website :: "env \<Rightarrow> json \<Rightarrow> world \<Rightarrow> unit result \<times> world" where
  "handle_website env command_data w =
     (case command_data of
        JDict kvs \<Rightarrow>
          (let w1 = print ''>> [BROWSER]'' w;
               w2 = print ''   Action: Opening Website'' w1
           in case dict_get kvs ''query'' (JStr ''Website URL'') of
                JStr q \<Rightarrow>
                  (let query = (if \<not> (startswith q ''http://'' \<or> startswith q ''https://'')
                                then ''https://'' @ q else q);
                       w3 = print (''   Target: '' @ quoted query) w2
                   in (Ok (), emit (BrowserOpen query) w3))
              | _ \<Rightarrow> (Raise (Other AttributeError), w2))
      | _ \<Rightarrow> (Raise (Other AttributeError), w))"

definition handle_unknown :: "env \<Rightarrow> json \<Rightarrow> world \<Rightarrow> unit result \<times> world" where
  "handle_unknown env command_data w =
     (case command_data of
        JDict kvs \<Rightarrow>
          (let query = format_value env (dict_get kvs ''query'' (JStr ''Unknown input''));
               w1 = print ''>> [SYSTEM]'' w;
               w2 = print ''   Status: Command not recognized or unsupported.'' w1
           in (Ok (), print (''   Input was: '' @ quoted query) w2))
      | _ \<Rightarrow> (Raise (Other AttributeError), w))"


section \<open>The media handler (spotify_config.py, spot.py)\<close>

definition SPOTIPY_CACHE_PATH :: string where "SPOTIPY_CACHE_PATH = ''.spotify_cache''"

definition SPOTIFY_ACTION_PLAY :: string where "SPOTIFY_ACTION_PLAY = ''play''"
definition SPOTIFY_ACTION_QUEUE :: string where "SPOTIFY_ACTION_QUEUE = ''queue''"
definition SPOTIFY_ACTION_SKIP_NEXT :: string where "SPOTIFY_ACTION_SKIP_NEXT = ''skip_next''"
definition SPOTIFY_ACTION_SKIP_PREVIOUS :: string where
  "SPOTIFY_ACTION_SKIP_PREVIOUS = ''skip_previous''"
definition SPOTIFY_ACTION_PAUSE :: string where "SPOTIFY_ACTION_PAUSE = ''pause''"
definition SPOTIFY_ACTION_RESUME :: string where "SPOTIFY_ACTION_RESUME = ''resume''"

text \<open>\<^verbatim>\<open>load_settings\<close>: the decoded file, or the default when there is no file.\<close>

definition load_settings :: "world \<Rightarrow> json result" where
  "load_settings w =
     (case settings w of
        NoFile \<Rightarrow> Ok (JDict [(''default_play_behavior'', JStr ''queue'')])
      | Unreadable \<Rightarrow> Raise (Other JSONDecodeError)
      | Content v \<Rightarrow> Ok v)"

text \<open>
  \<^verbatim>\<open>get_spotify_client\<close>. The OAuth object is created on first use (the client id and
  secret of the environment are taken as set); a client in \<^verbatim>\<open>sp\<close> is reused; otherwise
  \<^verbatim>\<open>get_cached_token\<close> reads the cache file, where a failing refresh of an expired token
  raises SpotifyOauthError, outside any \<^verbatim>\<open>try\<close>; and without a token the interactive
  authorization runs, whose token the library writes to the cache.
\<close>

definition authorize :: "env \<Rightarrow> world \<Rightarrow> string option result \<times> world" where
  "authorize env w =
     (let w1 = print ''>> [Spotify Auth] Please open this URL in your browser to log in and authorize Spotify:'' w;
          w2 = print (authorize_url env) w1;
          w3 = emit (BrowserOpen (authorize_url env)) w2;
          w4 = print ''>> After authorizing, copy the full URL from your browser's address bar and paste it here:'' w3
      in bind (input ''Redirected URL > '')
           (\<lambda>line w5.
              case get_access_token env (strip line) of
                Returns None \<Rightarrow> (Ok None, w5)
              | Returns (Some token) \<Rightarrow>
                  (Ok (Some token), w5\<lparr>sp := Some token, cache_file := Some token\<rparr>)
              | _ \<Rightarrow>
                  (Ok None, print ''Spotify authentication failed. Please ensure the Redirect URI is correct and you granted access.'' w5))
           w4)"

definition get_spotify_client :: "env \<Rightarrow> world \<Rightarrow> string option result \<times> world" where
  "get_spotify_client env w0 =
     (let w = (if spotify_oauth w0 then w0 else w0\<lparr>spotify_oauth := True\<rparr>) in
      case sp w of
        Some client \<Rightarrow> (Ok (Some client), w)
      | None \<Rightarrow>
          (case cache_file w of
             None \<Rightarrow> authorize env w
           | Some cached \<Rightarrow>
               (case validate_token env cached of
                  Returns None \<Rightarrow> authorize env w
                | Returns (Some token) \<Rightarrow>
                    (Ok (Some token), w\<lparr>sp := Some token, cache_file := Some token\<rparr>)
                | _ \<Rightarrow> (Raise (Other SpotifyOauthError), w))))"

text \<open>\<^verbatim>\<open>int(choice)\<close> on a stripped string: a sign, then digits, single underscores between them.\<close>

fun int_digits :: "string \<Rightarrow> bool" where
  "int_digits [] = False"
| "int_digits [c] = is_digit c"
| "int_digits (c # d # cs) =
     (is_digit c \<and> (if d = CHR ''_'' then int_digits cs else int_digits (d # cs)))"

definition py_int :: "string \<Rightarrow> int option" where
  "py_int s =
     (let signed = (s \<noteq> [] \<and> (hd s = CHR ''-'' \<or> hd s = CHR ''+''));
          body = (if signed then tl s else s);
          n = digits_value (filter is_digit body)
      in if int_digits body then Some (if signed \<and> hd s = CHR ''-'' then - n else n)
         else None)"

text \<open>
  The two branches of the handlers on an expired token: the text of the exception is
  searched for these markers.
\<close>

definition token_expired :: "string \<Rightarrow> bool" where
  "token_expired msg =
     (sublist ''Invalid Access Token'' msg \<or> sublist ''The access token expired'' msg)"

text \<open>
  Clearing the cache: the file is removed when it exists (the removal of an existing file
  is taken to succeed), and \<^verbatim>\<open>sp\<close> is reset.
\<close>

definition clear_token :: "world \<Rightarrow> world" where
  "clear_token w =
     (let w1 = (if cache_file w \<noteq> None
                then (emit (RemoveFile SPOTIPY_CACHE_PATH) w)\<lparr>cache_file := None\<rparr> else w)
      in w1\<lparr>sp := None\<rparr>)"

text \<open>
  The handlers at the end of \<^verbatim>\<open>get_active_device_id\<close>; the function returns \<^verbatim>\<open>None\<close> after
  either.
\<close>

definition device_check_failed :: "error \<Rightarrow> world \<Rightarrow> string option \<times> world" where
  "device_check_failed e w =
     (case e of
        SpotifyException msg \<Rightarrow>
          (if token_expired msg then
             (None, clear_token
                (print ''Spotify Error: Access token expired. Please restart the app for re-authentication.'' w))
           else (None, print (''An API error occurred while checking Spotify devices: '' @ msg) w))
      | Other x \<Rightarrow>
          (None, print ''An unexpected error occurred while getting Spotify devices.'' w))"

text \<open>
  The selection loop: one round per line of input. A line that is not a number, or a
  number out of range, asks again; the end of the input raises EOFError inside the
  outer \<^verbatim>\<open>try\<close>.
\<close>

fun select_device :: "env \<Rightarrow> device list \<Rightarrow> string list \<Rightarrow> world \<Rightarrow> string option \<times> world" where
  "select_device env devs [] w =
     device_check_failed (Other EOFError)
       (emit (Prompt ''Enter number of device to use (or 's' to skip): '') w)"
| "select_device env devs (line # rest) w =
     (let w1 = (emit (Prompt ''Enter number of device to use (or 's' to skip): '') w)\<lparr>stdin := rest\<rparr>;
          choice = strip line
      in if choice = ''s'' \<or> choice = ''S'' then
           (None, print ''Skipping Spotify action due to no device selection.'' w1)
         else
           (case py_int choice of
              None \<Rightarrow>
                select_device env devs rest
                  (print ''Invalid input. Please enter a number or 's'.'' w1)
            | Some n \<Rightarrow>
                (let device_index = n - 1 in
                 if 0 \<le> device_index \<and> device_index < int (length devs) then
                   (let selected_device = devs ! nat device_index in
                    case call (TransferPlayback (dev_id selected_device) True)
                           (transfer_playback env) w1 of
                      (Ok u, w2) \<Rightarrow> (Some (dev_id selected_device), w2)
                    | (Raise e, w2) \<Rightarrow> device_check_failed e w2)
                 else
                   select_device env devs rest
                     (print ''Invalid choice. Please enter a valid number.'' w1))))"

text \<open>The decimal numeral of a natural number, as \<^verbatim>\<open>str\<close> prints it.\<close>

fun string_of_nat :: "nat \<Rightarrow> string" where
  "string_of_nat n =
     (if n < 10 then [''0123456789'' ! n]
      else string_of_nat (n div 10) @ [''0123456789'' ! (n mod 10)])"

declare string_of_nat.simps [simp del]

fun print_devices :: "nat \<Rightarrow> device list \<Rightarrow> world \<Rightarrow> world" where
  "print_devices i [] w = w"
| "print_devices i (d # ds) w =
     print_devices (Suc i) ds
       (print (''   '' @ string_of_nat (Suc i) @ ''. '' @ dev_name d @ '' ('' @ dev_type d @ '')'') w)"

definition get_active_device_id :: "env \<Rightarrow> world \<Rightarrow> string option \<times> world" where
  "get_active_device_id env w =
     (case call Devices (devices env) w of
        (Raise e, w1) \<Rightarrow> device_check_failed e w1
      | (Ok devs, w1) \<Rightarrow>
          (let active_devices = filter is_active devs in
           if active_devices \<noteq> [] then (Some (dev_id (hd active_devices)), w1)
           else if devs \<noteq> [] then
             select_device env devs (stdin w1)
               (print_devices 0 devs
                  (print ''>> No active Spotify device found. Available devices:'' w1))
           else
             (None, print ''No Spotify devices found. Please open Spotify on a device and ensure it's logged in.'' w1)))"


text \<open>
  \<^verbatim>\<open>_handle_spotify_play_queue\<close>. The first item of the search is the track; its fields are
  read before the settings are. \<^verbatim>\<open>track['artists'][0]\<close> raises IndexError on a track
  without artists, and \<^verbatim>\<open>settings.get\<close> raises AttributeError on settings that are not a
  dict.
\<close>

definition play_behavior :: "world \<Rightarrow> json result" where
  "play_behavior w =
     (case load_settings w of
        Raise e \<Rightarrow> Raise e
      | Ok (JDict kvs) \<Rightarrow> Ok (dict_get kvs ''default_play_behavior'' JNull)
      | Ok _ \<Rightarrow> Raise (Other AttributeError))"

definition final_action_of :: "string \<Rightarrow> world \<Rightarrow> string result \<times> world" where
  "final_action_of action w =
     (if action = SPOTIFY_ACTION_PLAY then
        (case play_behavior w of
           Raise e \<Rightarrow> (Raise e, w)
         | Ok v \<Rightarrow>
             if v = JStr ''queue'' then
               (Ok SPOTIFY_ACTION_QUEUE,
                print ''   (Setting: 'Play' command interpreted as 'Add to Queue'.)'' w)
             else
               (Ok action,
                print ''   (Setting: 'Play' command interpreted as 'Play Directly'.)'' w))
      else (Ok action, w))"

definition start_if_idle :: "env \<Rightarrow> string \<Rightarrow> world \<Rightarrow> unit result \<times> world" where
  "start_if_idle env device_id =
     bind (call CurrentPlayback (current_playback env))
       (\<lambda>playing w.
          if playing = None \<or> playing = Some False then
            call (StartPlayback device_id None) (start_playback env)
              (print ''   Note: Music was paused, starting playback now.'' w)
          else (Ok (), print ''   Note: Music is already playing. Track added to queue.'' w))"

definition handle_spotify_play_queue ::
  "env \<Rightarrow> string \<Rightarrow> string \<Rightarrow> json \<Rightarrow> world \<Rightarrow> unit result \<times> world"
where
  "handle_spotify_play_queue env device_id action track_query =
     bind (call (Search track_query) (search env))
       (\<lambda>results w.
          case results of
            Some (track # others) \<Rightarrow>
              (case artists track of
                 [] \<Rightarrow> (Raise (Other IndexError), w)
               | artist_name # other_artists \<Rightarrow>
                   bind (final_action_of action)
                     (\<lambda>final_action.
                        if final_action = SPOTIFY_ACTION_QUEUE then
                          bind (call (AddToQueue (uri track) device_id) (add_to_queue env))
                            (\<lambda>u w1.
                               start_if_idle env device_id
                                 (print (''   Action: Added '' @ quoted (name track) @ '' by ''
                                           @ artist_name @ '' to queue!'') w1))
                        else if final_action = SPOTIFY_ACTION_PLAY then
                          bind (call (StartPlayback device_id (Some [uri track]))
                                  (start_playback env))
                            (\<lambda>u w1.
                               (Ok (), print (''   Action: Now playing '' @ quoted (name track)
                                                @ '' by '' @ artist_name @ ''!'') w1))
                        else (\<lambda>w1. (Ok (), w1)))
                     w)
          | _ \<Rightarrow>
              (Ok (), print (''   No Spotify track found for ''
                               @ quoted (format_value env track_query) @ ''.'') w))"

definition handle_spotify_skip :: "env \<Rightarrow> string \<Rightarrow> string \<Rightarrow> world \<Rightarrow> unit result \<times> world" where
  "handle_spotify_skip env device_id action =
     (if action = SPOTIFY_ACTION_SKIP_NEXT then
        bind (call (NextTrack device_id) (next_track env))
          (\<lambda>u w. (Ok (), print ''   Action: Skipped to next track!'' w))
      else if action = SPOTIFY_ACTION_SKIP_PREVIOUS then
        bind (call (PreviousTrack device_id) (previous_track env))
          (\<lambda>u w. (Ok (), print ''   Action: Skipped to previous track!'' w))
      else (\<lambda>w. (Ok (), w)))"

definition handle_spotify_playback_control ::
  "env \<Rightarrow> string \<Rightarrow> string \<Rightarrow> world \<Rightarrow> unit result \<times> world"
where
  "handle_spotify_playback_control env device_id action =
     (if action = SPOTIFY_ACTION_PAUSE then
        bind (call (PausePlayback device_id) (pause_playback env))
          (\<lambda>u w. (Ok (), print ''   Action: Playback paused.'' w))
      else if action = SPOTIFY_ACTION_RESUME then
        bind (call (StartPlayback device_id None) (start_playback env))
          (\<lambda>u w. (Ok (), print ''   Action: Playback resumed.'' w))
      else (\<lambda>w. (Ok (), w)))"

text \<open>The body of the \<^verbatim>\<open>try\<close> of \<^verbatim>\<open>handle_spotify_command\<close>.\<close>

definition perform_action ::
  "env \<Rightarrow> string \<Rightarrow> json \<Rightarrow> json \<Rightarrow> world \<Rightarrow> unit result \<times> world"
where
  "perform_action env device_id action track_query w =
     (if action = JStr SPOTIFY_ACTION_PLAY \<or> action = JStr SPOTIFY_ACTION_QUEUE then
        (if \<not> truthy track_query then
           (Ok (), print (''   Error: '' @ quoted (format_value env action)
                            @ '' command requires a 'track_query'.'') w)
         else handle_spotify_play_queue env device_id (format_value env action) track_query w)
      else if action = JStr SPOTIFY_ACTION_SKIP_NEXT \<or> action = JStr SPOTIFY_ACTION_SKIP_PREVIOUS
      then handle_spotify_skip env device_id (format_value env action) w
      else if action = JStr SPOTIFY_ACTION_PAUSE \<or> action = JStr SPOTIFY_ACTION_RESUME
      then handle_spotify_playback_control env device_id (format_value env action) w
      else (Ok (), print (''   Unknown Spotify action: '' @ quoted (format_value env action)
                            @ ''.'') w))"

text \<open>The handlers of that \<^verbatim>\<open>try\<close>, in the order of the source.\<close>

definition action_failed :: "string \<Rightarrow> error \<Rightarrow> world \<Rightarrow> world" where
  "action_failed device_id e w =
     (case e of
        SpotifyException msg \<Rightarrow>
          (if sublist ''No active device found'' msg then
             print ''   Spotify Error: No active playback device found. Please start Spotify on a device first.'' w
           else if token_expired msg then
             clear_token
               (print ''   Spotify Error: Access token expired. Attempting to re-authenticate on next command.'' w)
           else if sublist ''Restriction violated'' msg then
             print (''   Spotify Error: Restriction violated. Ensure Spotify app is open on device ''
                      @ quoted device_id @ '' and you have permissions.'') w
           else print (''   Spotify API error: '' @ msg) w)
      | Other x \<Rightarrow> print ''   An unexpected error occurred with Spotify.'' w)"

text \<open>
  Steps 4 and 5 of \<^verbatim>\<open>handle_spotify_command\<close>: the device is resolved, and the action is
  performed inside the \<^verbatim>\<open>try\<close>. An empty device id counts as no device
  (\<^verbatim>\<open>if not device_id\<close>).
\<close>

definition resolve_and_perform :: "env \<Rightarrow> json \<Rightarrow> json \<Rightarrow> world \<Rightarrow> unit result \<times> world" where
  "resolve_and_perform env action track_query w2 =
     (case get_active_device_id env w2 of
        (Some device_id, w3) \<Rightarrow>
          (if device_id = [] then
             (Ok (), print (''   No suitable Spotify device found or selected. Cannot perform action ''
                              @ quoted (format_value env action) @ ''.'') w3)
           else
             (case perform_action env device_id action track_query w3 of
                (Ok u, w4) \<Rightarrow> (Ok (), w4)
              | (Raise e, w4) \<Rightarrow> (Ok (), action_failed device_id e w4)))
      | (None, w3) \<Rightarrow>
          (Ok (), print (''   No suitable Spotify device found or selected. Cannot perform action ''
                           @ quoted (format_value env action) @ ''.'') w3))"

text \<open>
  \<^verbatim>\<open>handle_spotify_command\<close>. What precedes the \<^verbatim>\<open>try\<close> is not protected: a
  \<^verbatim>\<open>spotify_command\<close> that is not a dict raises AttributeError at \<^verbatim>\<open>.get\<close>, and the end of
  the input during the authorization raises EOFError.
\<close>

definition handle_spotify_command :: "env \<Rightarrow> json \<Rightarrow> world \<Rightarrow> unit result \<times> world" where
  "handle_spotify_command env command_data w =
     (case command_data of
        JDict kvs \<Rightarrow>
          (let w1 = print ''>> [SPOTIFY]'' w;
               spotify_cmd_details = dict_get kvs ''spotify_command'' JNull
           in if \<not> truthy spotify_cmd_details then
                (Ok (), print ''   Error: Missing 'spotify_command' details for Spotify intent.'' w1)
              else
                (case spotify_cmd_details of
                   JDict details \<Rightarrow>
                     (let action = dict_get details ''action'' JNull;
                          track_query = dict_get details ''track_query'' JNull
                      in if \<not> truthy action then
                           (Ok (), print ''   Error: Spotify command missing 'action' field.'' w1)
                         else
                           bind (get_spotify_client env)
                             (\<lambda>sp_client w2.
                                if sp_client = None then
                                  (Ok (), print ''   Spotify not connected. Cannot fulfill request.'' w2)
                                else resolve_and_perform env action track_query w2)
                             w1)
                 | _ \<Rightarrow> (Raise (Other AttributeError), w1)))
      | _ \<Rightarrow> (Raise (Other AttributeError), w))"


section \<open>The dispatcher (main.py)\<close>

datatype handler = HandleSpotify | HandleNetflix | HandleWebsite | HandleUnknown

definition COMMAND_HANDLERS :: "(string \<times> handler) list" where
  "COMMAND_HANDLERS =
     [(CMD_SPOTIFY, HandleSpotify), (CMD_NETFLIX, HandleNetflix),
      (CMD_WEBSITE, HandleWebsite), (CMD_UNKNOWN, HandleUnknown)]"

text \<open>A dict key has to be hashable: a list or a dict as key raises TypeError.\<close>

fun hashable :: "json \<Rightarrow> bool" where
  "hashable (JList xs) = False"
| "hashable (JDict kvs) = False"
| "hashable v = True"

text \<open>
  The routing of \<^verbatim>\<open>run_cli\<close>: \<^verbatim>\<open>command_data.get("intent", CMD_UNKNOWN)\<close>, then
  \<^verbatim>\<open>COMMAND_HANDLERS.get(intent, handle_unknown)\<close>. Only a str is equal to a key of the map.
\<close>

definition dispatch :: "json \<Rightarrow> exn + handler" where
  "dispatch command_data =
     (case command_data of
        JDict kvs \<Rightarrow>
          (let intent = dict_get kvs ''intent'' (JStr CMD_UNKNOWN) in
           if \<not> hashable intent then Inl TypeError
           else case intent of
                  JStr s \<Rightarrow>
                    (case map_of COMMAND_HANDLERS s of
                       Some handler \<Rightarrow> Inr handler
                     | None \<Rightarrow> Inr HandleUnknown)
                | _ \<Rightarrow> Inr HandleUnknown)
      | _ \<Rightarrow> Inl AttributeError)"

definition invoke :: "handler \<Rightarrow> env \<Rightarrow> json \<Rightarrow> world \<Rightarrow> unit result \<times> world" where
  "invoke handler =
     (case handler of
        HandleSpotify \<Rightarrow> handle_spotify_command
      | HandleNetflix \<Rightarrow> handle_netflix
      | HandleWebsite \<Rightarrow> handle_website
      | HandleUnknown \<Rightarrow> handle_unknown)"

text \<open>\<^verbatim>\<open>handler(command_data)\<close>: the handler found is called with the command itself.\<close>

definition run_command :: "env \<Rightarrow> json \<Rightarrow> world \<Rightarrow> unit result \<times> world" where
  "run_command env command_data w =
     (case dispatch command_data of
        Inl e \<Rightarrow> (Raise (Other e), w)
      | Inr handler \<Rightarrow> invoke handler env command_data w)"


section \<open>Notions of the specification and sample inputs\<close>

text \<open>The events that an invocation added to the trace of the world it started in.\<close>

definition new_events :: "world \<Rightarrow> world \<Rightarrow> event list" where
  "new_events w w' = drop (length (trace w)) (trace w')"

fun is_call :: "event \<Rightarrow> bool" where
  "is_call (Call c) = True"
| "is_call ev = False"

text \<open>
  What the Web API does on a call, as far as starting playback goes:
  \<^verbatim>\<open>transfer_playback\<close> with \<^verbatim>\<open>force_play=True\<close> makes the new device play, with
  \<^verbatim>\<open>force_play=False\<close> it keeps the current playback state; \<^verbatim>\<open>start_playback\<close> plays.
\<close>

fun starts_playback :: "api_call \<Rightarrow> bool" where
  "starts_playback (TransferPlayback device_id force_play) = force_play"
| "starts_playback (StartPlayback device_id uris) = True"
| "starts_playback c = False"

text \<open>
  URL-encoding as the specification names it, for comparison with what the video-search
  handler builds: the unreserved characters of RFC 3986 stand for themselves and every
  other character becomes \<^verbatim>\<open>%XX\<close> (\<^verbatim>\<open>urllib.parse.quote\<close> with no safe characters).
\<close>

definition unreserved :: "char \<Rightarrow> bool" where
  "unreserved c =
     (let n = (of_char c :: nat) in
        (65 \<le> n \<and> n \<le> 90) \<or> (97 \<le> n \<and> n \<le> 122) \<or> (48 \<le> n \<and> n \<le> 57)
        \<or> c = CHR ''-'' \<or> c = CHR ''_'' \<or> c = CHR ''.'' \<or> c = CHR ''~'')"

definition hex_digit :: "nat \<Rightarrow> char" where
  "hex_digit n = ''0123456789ABCDEF'' ! n"

definition url_encode :: "string \<Rightarrow> string" where
  "url_encode s =
     concat (map (\<lambda>c. if unreserved c then [c]
                       else [CHR ''%'', hex_digit ((of_char c :: nat) div 16),
                             hex_digit ((of_char c :: nat) mod 16)]) s)"

text \<open>
  A service that answers every call, with one idle device and one track in its catalog,
  and a world after a first authorization, with no settings file.
\<close>

definition laptop :: device where
  "laptop = \<lparr>dev_id = ''d1'', dev_name = ''Laptop'', dev_type = ''Computer'', is_active = False\<rparr>"

definition faded :: track where
  "faded = \<lparr>uri = ''spotify:track:faded'', name = ''Faded'', artists = [''Alan Walker'']\<rparr>"

definition sample_env :: env where
  "sample_env =
     \<lparr>str_of = (\<lambda>v. ''<value>''),
      authorize_url = ''https://accounts.spotify.com/authorize'',
      validate_token = (\<lambda>token. Returns (Some token)),
      get_access_token = (\<lambda>url. Returns (Some ''token-2'')),
      devices = Returns [laptop],
      transfer_playback = Returns (),
      search = Returns (Some [faded]),
      add_to_queue = Returns (),
      start_playback = Returns (),
      current_playback = Returns (Some True),
      next_track = Returns (),
      previous_track = Returns (),
      pause_playback = Returns ()\<rparr>"

definition sample_world :: world where
  "sample_world =
     \<lparr>sp = Some ''token-1'', spotify_oauth = True, cache_file = Some ''token-1'',
      settings = NoFile, stdin = [''1''], trace = []\<rparr>"



text \<open>
  A catalog item: a track object as the Web API documents it carries at least one artist,
  and the handler reads the name of the first for its report.
\<close>

definition catalog_item :: "track \<Rightarrow> bool" where
  "catalog_item t = (artists t \<noteq> [])"

definition queue_settings :: world where
  "queue_settings =
     sample_world\<lparr>settings := Content (JDict [(''default_play_behavior'', JStr ''queue'')])\<rparr>"

definition direct_settings :: world where
  "direct_settings =
     sample_world\<lparr>settings := Content (JDict [(''default_play_behavior'', JStr ''play_direct'')])\<rparr>"





section \<open>The shape of a trace\<close>

fun is_raise :: "event \<Rightarrow> bool" where
  "is_raise (Raises e) = True"
| "is_raise ev = False"

text \<open>No service call has raised.\<close>

definition quiet :: "event list \<Rightarrow> bool" where
  "quiet evs = (\<forall>ev \<in> set evs. \<not> is_raise ev)"


text \<open>
  What follows the raise of \<open>e\<close> in a trace that ends in the world \<open>w'\<close>: no call and no
  further raise, and for an expired token the report of it, with the cache cleared.
\<close>

definition failure_tail :: "error \<Rightarrow> world \<Rightarrow> event list \<Rightarrow> bool" where
  "failure_tail e w' tail =
     ((\<forall>ev \<in> set tail. \<not> is_raise ev \<and> \<not> is_call ev)
      \<and> (\<forall>msg. e = SpotifyException msg \<and> token_expired msg
                  \<and> \<not> sublist ''No active device found'' msg \<longrightarrow>
             sp w' = None \<and> cache_file w' = None
             \<and> (\<exists>report rest. tail = Print report # rest
                                 \<and> sublist ''Access token expired'' report)))"

text \<open>
  From \<open>w\<close> to \<open>w'\<close> the trace grows, and either no call raised, or (when the phase may
  stop the invocation) one call raised and a failure tail follows it.
\<close>

definition phase :: "world \<Rightarrow> world \<Rightarrow> bool \<Rightarrow> bool" where
  "phase w w' stopped =
     (\<exists>evs. trace w' = trace w @ evs
        \<and> (quiet evs
           \<or> (stopped \<and> (\<exists>pre e tail. evs = pre @ Raises e # tail \<and> quiet pre
                                \<and> failure_tail e w' tail))))"



section \<open>The command parser\<close>


text \<open>
  C1. The claim: \<open>parse_command\<close> returns a Command for every utterance and never lets an
  exception out. The code does not: when the service answers with the completion text
  \<^verbatim>\<open>5\<close>, which is valid JSON, \<^verbatim>\<open>json.loads\<close> returns the int 5, the test
  \<^verbatim>\<open>"intent" not in parsed_json\<close> raises TypeError, and neither handler catches it.
\<close>

theorem parse_command_raises_on_scalar_completion:
  \<open>parse_command json_loads (completion ''5'') ''play some music'' = Inl TypeError\<close>
  by code_simp

text \<open>
  C2. The claim: a decoded completion that lacks the key \<^verbatim>\<open>intent\<close> gives the Command with
  intent \<^verbatim>\<open>unknown\<close> and the utterance as query. The code tests \<^verbatim>\<open>"intent" not in\<close> on
  whatever was decoded: on \<^verbatim>\<open>null\<close> the test raises TypeError, and on a string it is a
  substring test, so that a string containing the word is returned as the Command. For
  a transport failure, an undecodable text and a decoded object the mapping is as
  claimed.
\<close>

theorem failure_mapping_misses_non_objects:
  \<open>parse_command json_loads (completion ''null'') ''open youtube'' = Inl TypeError
   \<and> parse_command json_loads (completion ''"no intent given"'') ''open youtube''
       = Inr (JStr ''no intent given'')\<close>
  by code_simp












section \<open>The dispatcher and the handlers of main.py\<close>

text \<open>
  C4. The claim: every Command whose intent is not one of the four declared values goes
  to the unknown-fallback handler. The parser returns the decoded object
  \<^verbatim>\<open>{"intent": ["spotify"]}\<close> as it is; a list is not hashable, so the lookup
  \<^verbatim>\<open>COMMAND_HANDLERS.get(intent, handle_unknown)\<close> raises TypeError and no handler is
  called.
\<close>

theorem dispatch_raises_on_list_intent:
  \<open>parse_command json_loads (completion ''{"intent": ["spotify"]}'') ''play something''
     = Inr (JDict [(''intent'', JList [JStr ''spotify''])])
   \<and> run_command sample_env (JDict [(''intent'', JList [JStr ''spotify''])]) sample_world
     = (Raise (Other TypeError), sample_world)\<close>
  by code_simp

text \<open>
  What holds of the routing: a Command whose intent is one of the four declared strings
  goes to the handler of that intent, with the Command itself; a Command without intent,
  or with any other intent that can be a dict key (a string outside the enum, a number,
  a bool, \<^verbatim>\<open>None\<close>), goes to the unknown-fallback handler.
\<close>

lemma dispatch_routes_hashable_intent:
  "(map_of kvs ''intent'' = Some (JStr ''spotify'') \<longrightarrow>
      run_command env (JDict kvs) w = handle_spotify_command env (JDict kvs) w)
   \<and> (map_of kvs ''intent'' = Some (JStr ''netflix'') \<longrightarrow>
      run_command env (JDict kvs) w = handle_netflix env (JDict kvs) w)
   \<and> (map_of kvs ''intent'' = Some (JStr ''website'') \<longrightarrow>
      run_command env (JDict kvs) w = handle_website env (JDict kvs) w)
   \<and> (map_of kvs ''intent'' = Some (JStr ''unknown'') \<longrightarrow>
      run_command env (JDict kvs) w = handle_unknown env (JDict kvs) w)
   \<and> (map_of kvs ''intent'' = None \<longrightarrow>
      run_command env (JDict kvs) w = handle_unknown env (JDict kvs) w)
   \<and> (map_of kvs ''intent'' = Some v \<and> hashable v \<and> v \<notin> JStr ` set intent_enum \<longrightarrow>
      run_command env (JDict kvs) w = handle_unknown env (JDict kvs) w)"
  by (cases v)
     (auto simp: run_command_def dispatch_def dict_get_def invoke_def COMMAND_HANDLERS_def
                 intent_enum_def SUPPORTED_INTENTS_def
                 CMD_SPOTIFY_def CMD_NETFLIX_def CMD_WEBSITE_def CMD_UNKNOWN_def)

text \<open>
  C8. The claim: the video-search handler URL-encodes the query. The handler puts the
  query into the URL as it is: for \<^verbatim>\<open>stranger things\<close> the URL opened has the space in
  it, and is not the endpoint followed by the encoded term.
\<close>

theorem handle_netflix_opens_unencoded_query:
  "new_events sample_world
     (snd (handle_netflix sample_env
             (JDict [(''intent'', JStr ''netflix''), (''query'', JStr ''stranger things'')])
             sample_world))
     = [Print ''>> [NETFLIX]'', Print ''   Action: Searching Netflix'',
        Print (''   Target: '' @ quoted ''stranger things''),
        BrowserOpen ''https://www.netflix.com/search?q=stranger things'']
   \<and> url_encode ''stranger things'' = ''stranger%20things''
   \<and> ''https://www.netflix.com/search?q=stranger things''
       \<noteq> ''https://www.netflix.com/search?q='' @ url_encode ''stranger things''"
  by (simp add: handle_netflix_def sample_env_def sample_world_def new_events_def dict_get_def
                format_value_def print_def emit_def url_encode_def unreserved_def hex_digit_def
                Let_def)

text \<open>
  C8, as amended. The handler opens the fixed search endpoint followed by the query,
  unchanged; without a query it uses the placeholder \<^verbatim>\<open>Netflix search\<close>.
\<close>

theorem handle_netflix_appends_query:
  "(map_of kvs ''query'' = Some (JStr q) \<longrightarrow>
      handle_netflix env (JDict kvs) w =
        (Ok (), w\<lparr>trace := trace w @
           [Print ''>> [NETFLIX]'', Print ''   Action: Searching Netflix'',
            Print (''   Target: '' @ quoted q),
            BrowserOpen (''https://www.netflix.com/search?q='' @ q)]\<rparr>))
   \<and> (map_of kvs ''query'' = None \<longrightarrow>
      handle_netflix env (JDict kvs) w =
        (Ok (), w\<lparr>trace := trace w @
           [Print ''>> [NETFLIX]'', Print ''   Action: Searching Netflix'',
            Print (''   Target: '' @ quoted ''Netflix search''),
            BrowserOpen ''https://www.netflix.com/search?q=Netflix search'']\<rparr>))"
  by (simp add: handle_netflix_def dict_get_def format_value_def print_def emit_def Let_def)

theorem handle_netflix_appends_query_witness:
  "handle_netflix sample_env (JDict [(''intent'', JStr ''netflix''), (''query'', JStr ''stranger things'')]) sample_world
     = (Ok (), sample_world\<lparr>trace :=
          [Print ''>> [NETFLIX]'', Print ''   Action: Searching Netflix'',
           Print (''   Target: '' @ quoted ''stranger things''),
           BrowserOpen ''https://www.netflix.com/search?q=stranger things'']\<rparr>)
   \<and> handle_netflix sample_env (JDict [(''intent'', JStr ''netflix'')]) sample_world
     = (Ok (), sample_world\<lparr>trace :=
          [Print ''>> [NETFLIX]'', Print ''   Action: Searching Netflix'',
           Print (''   Target: '' @ quoted ''Netflix search''),
           BrowserOpen ''https://www.netflix.com/search?q=Netflix search'']\<rparr>)"
  using handle_netflix_appends_query
          [of "[(''intent'', JStr ''netflix''), (''query'', JStr ''stranger things'')]"
              "''stranger things''" sample_env sample_world]
        handle_netflix_appends_query
          [of "[(''intent'', JStr ''netflix'')]" "''x''" sample_env sample_world]
  by (simp add: sample_world_def)

text \<open>
  C9. The website handler opens the query unchanged when it starts with \<^verbatim>\<open>http://\<close> or
  \<^verbatim>\<open>https://\<close>, and \<^verbatim>\<open>https://\<close> followed by the query otherwise.
\<close>

theorem handle_website_adds_scheme:
  "map_of kvs ''query'' = Some (JStr q) \<Longrightarrow>
   handle_website env (JDict kvs) w =
     (Ok (), w\<lparr>trace := trace w @
        [Print ''>> [BROWSER]'', Print ''   Action: Opening Website'',
         Print (''   Target: '' @ quoted
                  (if prefix ''http://'' q \<or> prefix ''https://'' q then q else ''https://'' @ q)),
         BrowserOpen
           (if prefix ''http://'' q \<or> prefix ''https://'' q then q else ''https://'' @ q)]\<rparr>)"
  by (simp add: handle_website_def dict_get_def startswith_def print_def emit_def Let_def)

theorem handle_website_adds_scheme_witness:
  "handle_website sample_env (JDict [(''intent'', JStr ''website''), (''query'', JStr ''example.com'')]) sample_world
     = (Ok (), sample_world\<lparr>trace :=
          [Print ''>> [BROWSER]'', Print ''   Action: Opening Website'',
           Print (''   Target: '' @ quoted ''https://example.com''),
           BrowserOpen ''https://example.com'']\<rparr>)
   \<and> handle_website sample_env (JDict [(''intent'', JStr ''website''), (''query'', JStr ''https://example.com'')]) sample_world
     = (Ok (), sample_world\<lparr>trace :=
          [Print ''>> [BROWSER]'', Print ''   Action: Opening Website'',
           Print (''   Target: '' @ quoted ''https://example.com''),
           BrowserOpen ''https://example.com'']\<rparr>)"
  using handle_website_adds_scheme
          [of "[(''intent'', JStr ''website''), (''query'', JStr ''example.com'')]"
              "''example.com''" sample_env sample_world]
        handle_website_adds_scheme
          [of "[(''intent'', JStr ''website''), (''query'', JStr ''https://example.com'')]"
              "''https://example.com''" sample_env sample_world]
  by (simp add: sample_world_def)


section \<open>The media handler: play and queue\<close>

lemma new_events_append [simp]: "new_events w (w'\<lparr>trace := trace w @ evs\<rparr>) = evs"
  by (simp add: new_events_def)

lemma play_behavior_trace [simp]: "play_behavior (w\<lparr>trace := evs\<rparr>) = play_behavior w"
  by (simp add: play_behavior_def load_settings_def)

lemmas play_queue_defs =
  handle_spotify_play_queue_def final_action_of_def start_if_idle_def bind_def call_def
  raised_def print_def emit_def SPOTIFY_ACTION_PLAY_def SPOTIFY_ACTION_QUEUE_def new_events_def

lemma play_as_queue_events:
  assumes "search env = Returns (Some (t # ts))" and "artists t \<noteq> []"
    and "play_behavior w = Ok (JStr ''queue'')"
  shows "Call (AddToQueue (uri t) device_id)
           \<in> set (new_events w (snd (handle_spotify_play_queue env device_id ''play'' track_query w)))"
    and "Print ''   (Setting: 'Play' command interpreted as 'Add to Queue'.)''
           \<in> set (new_events w (snd (handle_spotify_play_queue env device_id ''play'' track_query w)))"
    and "Call (StartPlayback d (Some uris))
           \<notin> set (new_events w (snd (handle_spotify_play_queue env device_id ''play'' track_query w)))"
  using assms
  by (auto simp: play_queue_defs
           split: list.splits result.splits answer.splits option.splits prod.splits)

lemma play_direct_events:
  assumes "search env = Returns (Some (t # ts))" and "artists t \<noteq> []"
    and "play_behavior w = Ok v" and "v \<noteq> JStr ''queue''"
  shows "Call (StartPlayback device_id (Some [uri t]))
           \<in> set (new_events w (snd (handle_spotify_play_queue env device_id ''play'' track_query w)))"
    and "Call (AddToQueue u d)
           \<notin> set (new_events w (snd (handle_spotify_play_queue env device_id ''play'' track_query w)))"
  using assms
  by (auto simp: play_queue_defs
           split: list.splits result.splits answer.splits option.splits prod.splits)


lemma play_behavior_of_settings:
  "load_settings w = Ok (JDict st) \<Longrightarrow>
   play_behavior w = Ok (dict_get st ''default_play_behavior'' JNull)"
  by (simp add: play_behavior_def)

text \<open>
  C5. A \<^verbatim>\<open>play\<close> whose track query matches a catalog item follows the setting: when
  \<^verbatim>\<open>default_play_behavior\<close> is \<^verbatim>\<open>queue\<close>, \<^verbatim>\<open>add_to_queue\<close> is called with the matched
  track, the note on the reinterpretation is printed and \<^verbatim>\<open>start_playback\<close> is never called
  with a track; when the setting is anything else, \<^verbatim>\<open>start_playback\<close> is called with the
  matched track and nothing is queued.
\<close>

theorem play_follows_default_play_behavior:
  assumes "search env = Returns (Some (t # ts))" and "catalog_item t"
    and "load_settings w = Ok (JDict st)"
  shows "(dict_get st ''default_play_behavior'' JNull = JStr ''queue'' \<longrightarrow>
            Call (AddToQueue (uri t) device_id)
              \<in> set (new_events w (snd (handle_spotify_play_queue env device_id SPOTIFY_ACTION_PLAY track_query w)))
          \<and> Print ''   (Setting: 'Play' command interpreted as 'Add to Queue'.)''
              \<in> set (new_events w (snd (handle_spotify_play_queue env device_id SPOTIFY_ACTION_PLAY track_query w)))
          \<and> (\<forall>d uris. Call (StartPlayback d (Some uris))
              \<notin> set (new_events w (snd (handle_spotify_play_queue env device_id SPOTIFY_ACTION_PLAY track_query w)))))
       \<and> (dict_get st ''default_play_behavior'' JNull \<noteq> JStr ''queue'' \<longrightarrow>
            Call (StartPlayback device_id (Some [uri t]))
              \<in> set (new_events w (snd (handle_spotify_play_queue env device_id SPOTIFY_ACTION_PLAY track_query w)))
          \<and> (\<forall>u d. Call (AddToQueue u d)
              \<notin> set (new_events w (snd (handle_spotify_play_queue env device_id SPOTIFY_ACTION_PLAY track_query w)))))"
proof -
  have art: "artists t \<noteq> []" using assms(2) by (simp add: catalog_item_def)
  have pb: "play_behavior w = Ok (dict_get st ''default_play_behavior'' JNull)"
    using assms(3) by (rule play_behavior_of_settings)
  show ?thesis
  proof (cases "dict_get st ''default_play_behavior'' JNull = JStr ''queue''")
    case True
    with pb have "play_behavior w = Ok (JStr ''queue'')" by simp
    from play_as_queue_events [OF assms(1) art this] True show ?thesis
      by (simp add: SPOTIFY_ACTION_PLAY_def)
  next
    case False
    from play_direct_events [OF assms(1) art pb False] False show ?thesis
      by (simp add: SPOTIFY_ACTION_PLAY_def)
  qed
qed

theorem play_follows_default_play_behavior_witness:
  "search sample_env = Returns (Some [faded]) \<and> catalog_item faded
   \<and> load_settings queue_settings = Ok (JDict [(''default_play_behavior'', JStr ''queue'')])
   \<and> Call (AddToQueue (uri faded) ''d1'')
        \<in> set (new_events queue_settings
                 (snd (handle_spotify_play_queue sample_env ''d1'' SPOTIFY_ACTION_PLAY (JStr ''faded'') queue_settings)))
   \<and> Print ''   (Setting: 'Play' command interpreted as 'Add to Queue'.)''
        \<in> set (new_events queue_settings
                 (snd (handle_spotify_play_queue sample_env ''d1'' SPOTIFY_ACTION_PLAY (JStr ''faded'') queue_settings)))
   \<and> load_settings direct_settings = Ok (JDict [(''default_play_behavior'', JStr ''play_direct'')])
   \<and> Call (StartPlayback ''d1'' (Some [uri faded]))
        \<in> set (new_events direct_settings
                 (snd (handle_spotify_play_queue sample_env ''d1'' SPOTIFY_ACTION_PLAY (JStr ''faded'') direct_settings)))"
proof -
  have s: "search sample_env = Returns (Some (faded # []))" by (simp add: sample_env_def)
  have a: "catalog_item faded" by (simp add: catalog_item_def faded_def)
  have q: "load_settings queue_settings = Ok (JDict [(''default_play_behavior'', JStr ''queue'')])"
    by (simp add: load_settings_def queue_settings_def sample_world_def)
  have d: "load_settings direct_settings = Ok (JDict [(''default_play_behavior'', JStr ''play_direct'')])"
    by (simp add: load_settings_def direct_settings_def sample_world_def)
  from play_follows_default_play_behavior [OF s a q, of "''d1''" "JStr ''faded''"]
       play_follows_default_play_behavior [OF s a d, of "''d1''" "JStr ''faded''"]
       s a q d
  show ?thesis by (simp add: dict_get_def)
qed

text \<open>
  C10. Without a settings file \<^verbatim>\<open>load_settings\<close> returns the default
  \<^verbatim>\<open>{"default_play_behavior": "queue"}\<close>, and so a \<^verbatim>\<open>play\<close> with a matched track is
  queued: \<^verbatim>\<open>add_to_queue\<close> is called, and \<^verbatim>\<open>start_playback\<close> is never called with a track.
\<close>

theorem missing_settings_file_queues:
  assumes "settings w = NoFile"
  shows "load_settings w = Ok (JDict [(''default_play_behavior'', JStr ''queue'')])
       \<and> (search env = Returns (Some (t # ts)) \<and> catalog_item t \<longrightarrow>
            Call (AddToQueue (uri t) device_id)
              \<in> set (new_events w (snd (handle_spotify_play_queue env device_id SPOTIFY_ACTION_PLAY track_query w)))
          \<and> (\<forall>d uris. Call (StartPlayback d (Some uris))
              \<notin> set (new_events w (snd (handle_spotify_play_queue env device_id SPOTIFY_ACTION_PLAY track_query w)))))"
proof -
  have ls: "load_settings w = Ok (JDict [(''default_play_behavior'', JStr ''queue'')])"
    using assms by (simp add: load_settings_def)
  then have pb: "play_behavior w = Ok (JStr ''queue'')"
    by (simp add: play_behavior_def dict_get_def)
  show ?thesis
    using ls play_as_queue_events(1,3) [OF _ _ pb]
    by (auto simp: SPOTIFY_ACTION_PLAY_def catalog_item_def)
qed

theorem missing_settings_file_queues_witness:
  "settings sample_world = NoFile
   \<and> load_settings sample_world = Ok (JDict [(''default_play_behavior'', JStr ''queue'')])
   \<and> search sample_env = Returns (Some [faded]) \<and> catalog_item faded
   \<and> Call (AddToQueue (uri faded) ''d1'')
        \<in> set (new_events sample_world
                 (snd (handle_spotify_play_queue sample_env ''d1'' SPOTIFY_ACTION_PLAY (JStr ''faded'') sample_world)))
   \<and> (\<forall>d uris. Call (StartPlayback d (Some uris))
        \<notin> set (new_events sample_world
                 (snd (handle_spotify_play_queue sample_env ''d1'' SPOTIFY_ACTION_PLAY (JStr ''faded'') sample_world))))"
proof -
  have n: "settings sample_world = NoFile" by (simp add: sample_world_def)
  have s: "search sample_env = Returns (Some [faded])" by (simp add: sample_env_def)
  have a: "catalog_item faded" by (simp add: catalog_item_def faded_def)
  from missing_settings_file_queues [OF n, of sample_env faded "[]" "''d1''" "JStr ''faded''"] n s a
  show ?thesis by simp
qed


lemma quiet_simps [simp]:
  "quiet []" "quiet (ev # evs) = (\<not> is_raise ev \<and> quiet evs)"
  "quiet (xs @ ys) = (quiet xs \<and> quiet ys)"
  by (auto simp: quiet_def)







lemma phase_stdin [simp]: "phase (w\<lparr>stdin := ins\<rparr>) w' stopped = phase w w' stopped"
  by (simp add: phase_def)


























text \<open>
  C7. The claim, and the comment in the source: when the user picks a device, playback is
  transferred to it without starting playback. The call made is
  \<^verbatim>\<open>transfer_playback(device_id=..., force_play=True)\<close>, which makes the device play. The
  device id is returned as claimed.
\<close>

theorem device_selection_forces_play:
  "get_active_device_id sample_env sample_world =
     (Some ''d1'',
      sample_world\<lparr>stdin := [],
        trace :=
          [Call Devices,
           Print ''>> No active Spotify device found. Available devices:'',
           Print ''   1. Laptop (Computer)'',
           Prompt ''Enter number of device to use (or 's' to skip): '',
           Call (TransferPlayback ''d1'' True)]\<rparr>)
   \<and> starts_playback (TransferPlayback ''d1'' True)"
  by code_simp

end
